theory Spec2Isabelle
  imports Complex_Main
begin

section \<open>The voice chat widget: data model\<close>

text \<open>
  The component \<^verbatim>\<open>VoiceChat\<close> is a function that the UI framework calls once per
  render. Every call binds the constants \<^verbatim>\<open>isOpen\<close>, \<^verbatim>\<open>isRecording\<close>, \<^verbatim>\<open>isConnected\<close>,
  \<^verbatim>\<open>isHandsFree\<close> and \<^verbatim>\<open>inputText\<close> (lines 6-11, \<^verbatim>\<open>const [x, setX] = useState(..)\<close>)
  and creates the handlers afresh, so a handler reads the constants of the render that
  created it, while \<^verbatim>\<open>setX\<close> writes the state cell the next render reads. The
  embedding keeps the two apart: a \<open>render\<close> holds the constants a closure captured,
  the \<open>world\<close> holds the state cells (prefix \<open>s_\<close>), the mutable refs and what
  the browser holds for the component (sockets, streams, object URLs, timers, frames).
\<close>

datatype sender = User | Agent | System

text \<open>A text payload as JavaScript sees it: a string, or \<^verbatim>\<open>undefined\<close> for a missing field.\<close>

datatype jsval = JUndefined | JString string

fun truthy :: "jsval \<Rightarrow> bool" where
  "truthy JUndefined = False"
| "truthy (JString s) = (s \<noteq> [])"

text \<open>The conversion \<^verbatim>\<open>+\<close> applies to an operand next to a string.\<close>

fun to_str :: "jsval \<Rightarrow> string" where
  "to_str JUndefined = ''undefined''"
| "to_str (JString s) = s"

text \<open>
  A transcript entry. \<open>msg_time\<close> is the instant of its creation; the source keeps
  the locale's rendering of it.
\<close>

record message =
  msg_sender :: sender
  msg_text :: jsval
  msg_time :: int

text \<open>The constants one render binds, as the closures created in it read them.\<close>

record render =
  isOpen :: bool
  isRecording :: bool
  isConnected :: bool
  isHandsFree :: bool
  inputText :: string

datatype callback = RetrySend render | Restart render

datatype readyState = CONNECTING | OPEN | CLOSING | CLOSED

type_synonym blob = "nat list"

text \<open>
  Outbound frames: the utterance blob, \<^verbatim>\<open>JSON.stringify({text})\<close> and
  \<^verbatim>\<open>JSON.stringify({type: "interrupt"})\<close>.
\<close>

datatype frame = BinaryFrame blob | TextFrame string | InterruptFrame

datatype inbound = BlobData blob | TextData string

text \<open>
  What \<^verbatim>\<open>JSON.parse\<close> returned, as far as the handler looks at it: \<^verbatim>\<open>null\<close>, a value
  with none of the three fields (a number, a string, a boolean, an array), or an object
  with its \<^verbatim>\<open>audio\<close>, \<^verbatim>\<open>text\<close> and \<^verbatim>\<open>type\<close> fields (strings when present, as the
  protocol has them).
\<close>

datatype json = JNull | JPrimitive | JObject jsval jsval jsval

datatype js_error = SyntaxError | TypeError | InvalidCharacterError | InvalidStateError

datatype recorder_state = Recording | Stopping | Inactive

record recorder =
  rec_stream :: nat
  chunks :: "blob list"
  rec_state :: recorder_state

record world =
  s_isOpen :: bool
  s_isRecording :: bool
  s_isConnected :: bool
  s_isHandsFree :: bool
  s_inputText :: string
  messages :: "message list"
  websocketRef :: "readyState option"
  mediaRecorderRef :: "recorder option"
  canvasRef :: bool
  analyserRef :: bool
  animationFrameRef :: "nat option"
  silenceStartRef :: "int option"
  audioQueueRef :: "blob list"
  isPlayingRef :: bool
  currentAudioRef :: "nat option"
  clock :: int
  sent :: "frame list"
  sockets :: nat
  liveStreams :: "nat list"
  liveURLs :: "nat list"
  sounding :: "nat list"
  started :: "blob list"
  frames :: "(nat \<times> render) list"
  timers :: "(nat \<times> callback) list"
  fresh :: nat

subsection \<open>Transcript\<close>

text \<open>
  The updater that \<^verbatim>\<open>addMessage\<close> hands to \<^verbatim>\<open>setMessages\<close> (lines 328-337):
  \<^verbatim>\<open>prev[prev.length - 1]\<close> is \<^verbatim>\<open>undefined\<close> on the empty transcript, which is the
  first conjunct of the test.
\<close>

definition merge_or_append :: "sender \<Rightarrow> jsval \<Rightarrow> int \<Rightarrow> message list \<Rightarrow> message list" where
  "merge_or_append who txt tm prev =
     (if prev \<noteq> [] \<and> msg_sender (last prev) = who \<and> who \<noteq> System
      then prev[length prev - 1 :=
             (last prev)\<lparr>msg_text := JString (to_str (msg_text (last prev)) @ '' '' @ to_str txt)\<rparr>]
      else prev @ [\<lparr>msg_sender = who, msg_text = txt, msg_time = tm\<rparr>])"

definition addMessage :: "sender \<Rightarrow> jsval \<Rightarrow> world \<Rightarrow> world" where
  "addMessage who txt w = w\<lparr>messages := merge_or_append who txt (clock w) (messages w)\<rparr>"

subsection \<open>Connection\<close>

text \<open>\<^verbatim>\<open>connectWebSocket\<close>, lines 41-95; the socket starts in the connecting state.\<close>

definition connectWebSocket :: "world \<Rightarrow> world" where
  "connectWebSocket w =
     (if websocketRef w = Some OPEN \<or> websocketRef w = Some CONNECTING then w
      else w\<lparr>websocketRef := Some CONNECTING, sockets := Suc (sockets w)\<rparr>)"

definition ws_onopen :: "world \<Rightarrow> world" where
  "ws_onopen w =
     addMessage System (JString ''Connected to Banking Assistant'') (w\<lparr>s_isConnected := True\<rparr>)"

definition ws_onclose :: "world \<Rightarrow> world" where
  "ws_onclose w =
     addMessage System (JString ''Disconnected'') (w\<lparr>s_isConnected := False, s_isRecording := False\<rparr>)"

text \<open>
  \<^verbatim>\<open>websocketRef.current.send(..)\<close> without a guard (line 306): a null reference is a
  TypeError, a connecting socket throws, a closing or closed one discards the frame.
\<close>

definition ws_send :: "frame \<Rightarrow> world \<Rightarrow> js_error option \<times> world" where
  "ws_send f w =
     (case websocketRef w of
        None \<Rightarrow> (Some TypeError, w)
      | Some CONNECTING \<Rightarrow> (Some InvalidStateError, w)
      | Some OPEN \<Rightarrow> (None, w\<lparr>sent := sent w @ [f]\<rparr>)
      | Some CLOSING \<Rightarrow> (None, w)
      | Some CLOSED \<Rightarrow> (None, w))"

subsection \<open>Playback queue\<close>

text \<open>
  \<^verbatim>\<open>processQueue\<close>, lines 175-198, up to the call of \<^verbatim>\<open>audio.play()\<close>. An audio element
  is named by its object URL; \<open>liveURLs\<close> are the URLs created and not revoked,
  \<open>sounding\<close> the elements whose \<^verbatim>\<open>play()\<close> was called and that have neither ended,
  nor failed, nor been paused; \<open>started\<close> logs the clips in the order their playback began.
\<close>

definition processQueue :: "world \<Rightarrow> world" where
  "processQueue w =
     (if isPlayingRef w \<or> audioQueueRef w = [] then w
      else w\<lparr>isPlayingRef := True,
             audioQueueRef := tl (audioQueueRef w),
             liveURLs := liveURLs w @ [fresh w],
             currentAudioRef := Some (fresh w),
             sounding := sounding w @ [fresh w],
             started := started w @ [hd (audioQueueRef w)],
             fresh := Suc (fresh w)\<rparr>)"

text \<open>The \<^verbatim>\<open>onended\<close> handler of the element with URL \<open>url\<close>, lines 184-189.\<close>

definition onended :: "nat \<Rightarrow> world \<Rightarrow> world" where
  "onended url w =
     processQueue (w\<lparr>liveURLs := removeAll url (liveURLs w), isPlayingRef := False,
                     currentAudioRef := None\<rparr>)"

text \<open>The \<^verbatim>\<open>catch\<close> block that runs when \<^verbatim>\<open>audio.play()\<close> rejects, lines 193-197.\<close>

definition play_catch :: "world \<Rightarrow> world" where
  "play_catch w = processQueue (w\<lparr>isPlayingRef := False\<rparr>)"

definition playAudioResponse :: "blob \<Rightarrow> world \<Rightarrow> world" where
  "playAudioResponse b w = processQueue (w\<lparr>audioQueueRef := audioQueueRef w @ [b]\<rparr>)"

text \<open>\<^verbatim>\<open>stopAudioPlayback\<close>, lines 205-212; \<^verbatim>\<open>pause()\<close> silences the current element.\<close>

definition stopAudioPlayback :: "world \<Rightarrow> world" where
  "stopAudioPlayback w =
     (case currentAudioRef w of
        Some a \<Rightarrow> w\<lparr>audioQueueRef := [], sounding := removeAll a (sounding w),
                      currentAudioRef := None, isPlayingRef := False\<rparr>
      | None \<Rightarrow> w\<lparr>audioQueueRef := [], isPlayingRef := False\<rparr>)"

text \<open>
  The browser fires \<^verbatim>\<open>ended\<close>, or rejects the promise of \<^verbatim>\<open>play()\<close>, only for an
  element that is sounding.
\<close>

definition audio_ends :: "nat \<Rightarrow> world \<Rightarrow> world" where
  "audio_ends url w =
     (if url \<in> set (sounding w) then onended url (w\<lparr>sounding := removeAll url (sounding w)\<rparr>)
      else w)"

definition play_rejects :: "nat \<Rightarrow> world \<Rightarrow> world" where
  "play_rejects url w =
     (if url \<in> set (sounding w) then play_catch (w\<lparr>sounding := removeAll url (sounding w)\<rparr>)
      else w)"

subsection \<open>Inbound dispatch\<close>

text \<open>
  The \<^verbatim>\<open>try\<close> block of \<^verbatim>\<open>ws.onmessage\<close>, lines 72-87, with lines 75-79 as
  \<open>decode_audio\<close>. \<^verbatim>\<open>JSON.parse\<close> and \<^verbatim>\<open>atob\<close> are the browser's; they are parameters,
  \<open>None\<close> where they throw. Reading a field of \<^verbatim>\<open>null\<close> throws a TypeError. Nothing
  has changed when one of the three throws.
\<close>

definition decode_audio :: "(string \<Rightarrow> blob option) \<Rightarrow> jsval \<Rightarrow> world \<Rightarrow> js_error + world" where
  "decode_audio atob audio w =
     (if truthy audio
      then (case atob (to_str audio) of
              None \<Rightarrow> Inl InvalidCharacterError
            | Some bytes \<Rightarrow> Inr (playAudioResponse bytes w))
      else Inr w)"

definition onmessage_try ::
  "(string \<Rightarrow> json option) \<Rightarrow> (string \<Rightarrow> blob option) \<Rightarrow> string \<Rightarrow> world \<Rightarrow> js_error + world" where
  "onmessage_try parse atob payload w =
     (case parse payload of
        None \<Rightarrow> Inl SyntaxError
      | Some JNull \<Rightarrow> Inl TypeError
      | Some JPrimitive \<Rightarrow> Inr w
      | Some (JObject audio txt typ) \<Rightarrow>
          (case decode_audio atob audio w of
             Inl e \<Rightarrow> Inl e
           | Inr w1 \<Rightarrow>
               Inr (if truthy txt \<and> typ \<noteq> JString ''transcript'' then addMessage Agent txt w1
                    else if typ = JString ''transcript'' then addMessage User txt w1
                    else if typ = JString ''text_response'' then addMessage Agent txt w1
                    else w1)))"

text \<open>\<^verbatim>\<open>ws.onmessage\<close>, lines 67-92: \<open>Inl\<close> would be an exception that leaves the handler.\<close>

definition onmessage ::
  "(string \<Rightarrow> json option) \<Rightarrow> (string \<Rightarrow> blob option) \<Rightarrow> inbound \<Rightarrow> world \<Rightarrow> js_error + world" where
  "onmessage parse atob ev w =
     (case ev of
        BlobData b \<Rightarrow> Inr (playAudioResponse b w)
      | TextData payload \<Rightarrow>
          (case onmessage_try parse atob payload w of
             Inl e \<Rightarrow> Inr (addMessage Agent (JString payload) w)
           | Inr w1 \<Rightarrow> Inr w1))"

subsection \<open>Timers and animation frames\<close>

definition setTimeout :: "nat \<Rightarrow> callback \<Rightarrow> world \<Rightarrow> world" where
  "setTimeout ms cb w = w\<lparr>timers := timers w @ [(ms, cb)]\<rparr>"

text \<open>
  \<^verbatim>\<open>animationFrameRef.current = requestAnimationFrame(draw)\<close>, line 249: the pending
  request holds the closure, that is the render whose constants \<^verbatim>\<open>draw\<close> reads.
\<close>

definition requestAnimationFrame :: "render \<Rightarrow> world \<Rightarrow> world" where
  "requestAnimationFrame r w =
     w\<lparr>frames := frames w @ [(fresh w, r)], animationFrameRef := Some (fresh w),
       fresh := Suc (fresh w)\<rparr>"

definition cancelAnimationFrame :: "nat \<Rightarrow> world \<Rightarrow> world" where
  "cancelAnimationFrame fid w = w\<lparr>frames := filter (\<lambda>p. fst p \<noteq> fid) (frames w)\<rparr>"

subsection \<open>Capture pipeline\<close>

text \<open>
  \<^verbatim>\<open>stopRecording\<close>, lines 145-161. \<^verbatim>\<open>stop()\<close> puts the recorder into its stopping phase
  (the browser then delivers the last data and the \<^verbatim>\<open>stop\<close> event) and leaves an
  inactive recorder as it is; the tracks of the recorder's stream end. Clearing the
  canvas changes nothing that is modelled. Identifiers of streams, object URLs and
  frame requests are drawn from the one counter \<open>fresh\<close>.
\<close>

definition stopRecording :: "render \<Rightarrow> world \<Rightarrow> world" where
  "stopRecording r w =
     (case mediaRecorderRef w of
        None \<Rightarrow> w
      | Some m \<Rightarrow>
          if isRecording r
          then (let w1 = w\<lparr>mediaRecorderRef :=
                              Some (m\<lparr>rec_state := (if rec_state m = Inactive then Inactive else Stopping)\<rparr>),
                            liveStreams := removeAll (rec_stream m) (liveStreams w),
                            s_isRecording := False\<rparr>
                in case animationFrameRef w1 of
                     Some fid \<Rightarrow> cancelAnimationFrame fid w1
                   | None \<Rightarrow> w1)
          else w)"

text \<open>\<^verbatim>\<open>mediaRecorder.ondataavailable\<close>, lines 121-125.\<close>

definition ondataavailable :: "blob \<Rightarrow> world \<Rightarrow> world" where
  "ondataavailable d w =
     (case mediaRecorderRef w of
        None \<Rightarrow> w
      | Some m \<Rightarrow>
          if length d > 0 then w\<lparr>mediaRecorderRef := Some (m\<lparr>chunks := chunks m @ [d]\<rparr>)\<rparr> else w)"

text \<open>
  \<^verbatim>\<open>mediaRecorder.onstop\<close>, lines 127-133: \<^verbatim>\<open>new Blob(chunks)\<close> is the concatenation of
  the buffered chunks.
\<close>

definition recorder_onstop :: "world \<Rightarrow> world" where
  "recorder_onstop w =
     (case mediaRecorderRef w of
        None \<Rightarrow> w
      | Some m \<Rightarrow>
          if websocketRef w = Some OPEN \<and> length (chunks m) > 0
          then w\<lparr>sent := sent w @ [BinaryFrame (concat (chunks m))],
                 mediaRecorderRef := Some (m\<lparr>chunks := []\<rparr>)\<rparr>
          else w)"

subsection \<open>Turn controller\<close>

text \<open>
  The mean of the frequency bins, lines 291-295. The bins are bytes and there are 128 of
  them, so the quotient is exact; on no bins the source compares \<^verbatim>\<open>NaN > 25\<close>, which
  is false, as \<open>0 > 25\<close> is here.
\<close>

definition average :: "nat list \<Rightarrow> rat" where
  "average dataArray = of_nat (sum_list dataArray) / of_nat (length dataArray)"

text \<open>
  \<^verbatim>\<open>draw\<close>, lines 248-322, without the canvas. \<open>r\<close> is the render in which the enclosing
  \<^verbatim>\<open>drawVisualizer\<close> was created: \<^verbatim>\<open>isHandsFree\<close> and \<^verbatim>\<open>isRecording\<close> in line 297 are its
  constants. \<^verbatim>\<open>!silenceStartRef.current\<close> holds for \<^verbatim>\<open>null\<close> and for 0. An exception of
  \<^verbatim>\<open>send\<close> leaves \<^verbatim>\<open>draw\<close>; what was done before it stays done.
\<close>

definition draw :: "render \<Rightarrow> nat list \<Rightarrow> world \<Rightarrow> js_error option \<times> world" where
  "draw r dataArray w0 =
     (let w = requestAnimationFrame r w0 in
      if isHandsFree r \<and> isRecording r
      then if average dataArray > 25
           then (let w1 = w\<lparr>silenceStartRef := None\<rparr> in
                 if length (audioQueueRef w1) > 0 \<or> isPlayingRef w1
                 then ws_send InterruptFrame (stopAudioPlayback w1)
                 else (None, w1))
           else (case silenceStartRef w of
                   None \<Rightarrow> (None, w\<lparr>silenceStartRef := Some (clock w)\<rparr>)
                 | Some t0 \<Rightarrow>
                     if t0 = 0 then (None, w\<lparr>silenceStartRef := Some (clock w)\<rparr>)
                     else if clock w - t0 > 600
                     then (None, setTimeout 100 (Restart r)
                                   ((stopRecording r w)\<lparr>silenceStartRef := None\<rparr>))
                     else (None, w))
      else (None, w))"

definition drawVisualizer :: "render \<Rightarrow> nat list \<Rightarrow> world \<Rightarrow> js_error option \<times> world" where
  "drawVisualizer r dataArray w =
     (if \<not> analyserRef w \<or> \<not> canvasRef w then (None, w) else draw r dataArray w)"

text \<open>
  \<^verbatim>\<open>startRecording\<close>, lines 97-143. \<open>granted\<close> is the outcome of \<^verbatim>\<open>getUserMedia\<close>,
  \<open>dataArray\<close> what the analyser gives the first, synchronous call of \<^verbatim>\<open>draw\<close>. There
  is no test of \<^verbatim>\<open>isRecording\<close> or of \<^verbatim>\<open>mediaRecorderRef\<close> in it. An exception inside
  the \<^verbatim>\<open>try\<close> ends in the \<^verbatim>\<open>catch\<close>.
\<close>

definition startRecording :: "render \<Rightarrow> bool \<Rightarrow> nat list \<Rightarrow> world \<Rightarrow> world" where
  "startRecording r granted dataArray w0 =
     (let w1 = (if \<not> isConnected r then connectWebSocket w0 else w0) in
      if \<not> granted then addMessage System (JString ''Error accessing microphone'') w1
      else (let s = fresh w1;
                w2 = w1\<lparr>liveStreams := liveStreams w1 @ [s], analyserRef := True, fresh := Suc s\<rparr>
            in case drawVisualizer r dataArray w2 of
                 (Some e, w3) \<Rightarrow> addMessage System (JString ''Error accessing microphone'') w3
               | (None, w3) \<Rightarrow>
                   addMessage System
                     (JString (if isHandsFree r then ''Hands-free mode active. Listening...''
                               else ''Listening...''))
                     (w3\<lparr>mediaRecorderRef :=
                           Some \<lparr>rec_stream = s, chunks = [], rec_state = Recording\<rparr>,
                         s_isRecording := True\<rparr>)))"

definition toggleRecording :: "render \<Rightarrow> bool \<Rightarrow> nat list \<Rightarrow> world \<Rightarrow> world" where
  "toggleRecording r granted dataArray w =
     (if isRecording r then stopRecording r w else startRecording r granted dataArray w)"

subsection \<open>Text send\<close>

text \<open>
  \<^verbatim>\<open>String.prototype.trim\<close> on strings of code units below 256: the white space and line
  terminator characters there are TAB, LF, VT, FF, CR, SP and NBSP.
\<close>

definition is_ws :: "char \<Rightarrow> bool" where
  "is_ws c = (of_char c \<in> {9, 10, 11, 12, 13, 32, 160 :: nat})"

definition trim :: "string \<Rightarrow> string" where
  "trim s = rev (dropWhile is_ws (rev (dropWhile is_ws s)))"

text \<open>
  \<^verbatim>\<open>handleSendMessage\<close>, lines 214-230. The retry of line 222 calls the same closure, so
  it reads the same \<^verbatim>\<open>inputText\<close> and \<^verbatim>\<open>isConnected\<close> again.
\<close>

definition handleSendMessage :: "render \<Rightarrow> world \<Rightarrow> world" where
  "handleSendMessage r w0 =
     (if trim (inputText r) = [] then w0
      else (let w = (if \<not> isConnected r then connectWebSocket w0 else w0) in
            if websocketRef w \<noteq> Some OPEN then setTimeout 500 (RetrySend r) w
            else addMessage User (JString (inputText r))
                   (w\<lparr>sent := sent w @ [TextFrame (inputText r)], s_inputText := []\<rparr>)))"

definition toggleChat :: "render \<Rightarrow> world \<Rightarrow> world" where
  "toggleChat r w0 =
     (let w = w0\<lparr>s_isOpen := \<not> isOpen r, canvasRef := \<not> isOpen r\<rparr> in
      if \<not> isOpen r \<and> \<not> isConnected r then connectWebSocket w else w)"

subsection \<open>The widget as an event system\<close>

text \<open>The render on screen: its handlers read the current state cells.\<close>

definition current_render :: "world \<Rightarrow> render" where
  "current_render w =
     \<lparr>isOpen = s_isOpen w, isRecording = s_isRecording w, isConnected = s_isConnected w,
      isHandsFree = s_isHandsFree w, inputText = s_inputText w\<rparr>"

definition run_callback :: "callback \<Rightarrow> bool \<Rightarrow> nat list \<Rightarrow> world \<Rightarrow> world" where
  "run_callback cb granted dataArray w =
     (case cb of
        RetrySend r \<Rightarrow> handleSendMessage r w
      | Restart r \<Rightarrow> startRecording r granted dataArray w)"

text \<open>
  What can happen to the widget: the user's actions (the mic, send and hands-free
  controls exist only while the panel is open, and the input field is disabled while
  recording outside hands-free mode, line 414), the events of the socket that
  \<^verbatim>\<open>websocketRef\<close> holds (a message arrives on an open socket only), an animation frame
  (the oldest pending request runs), a timer that fires (at any time, the delay is not
  enforced), the events of the sounding audio element and of the recorder that
  \<^verbatim>\<open>mediaRecorderRef\<close> holds, and time passing. A handler runs to its end before the
  next event: \<^verbatim>\<open>startRecording\<close> is taken in one piece, \<^verbatim>\<open>getUserMedia\<close> answering
  at once. The unmount of the component is not an event here.
\<close>

datatype event =
    ToggleChat
  | CloseChat
  | ClickHandsFree
  | TypeInput string
  | PressSend
  | ClickMic bool "nat list"
  | SocketOpens
  | SocketCloses
  | SocketMessage inbound
  | AnimationFrame "nat list"
  | TimerFires nat bool "nat list"
  | AudioEnds nat
  | PlayRejects nat
  | DataAvailable blob
  | RecorderStopped
  | TimePasses nat

definition socket_opens :: "world \<Rightarrow> world" where
  "socket_opens w =
     (if websocketRef w = Some CONNECTING then ws_onopen (w\<lparr>websocketRef := Some OPEN\<rparr>) else w)"

definition socket_closes :: "world \<Rightarrow> world" where
  "socket_closes w =
     (if websocketRef w = None \<or> websocketRef w = Some CLOSED then w
      else ws_onclose (w\<lparr>websocketRef := Some CLOSED\<rparr>))"

definition animation_frame :: "nat list \<Rightarrow> world \<Rightarrow> world" where
  "animation_frame dataArray w =
     (case frames w of
        [] \<Rightarrow> w
      | (fid, r) # rest \<Rightarrow> snd (draw r dataArray (w\<lparr>frames := rest\<rparr>)))"

definition timer_fires :: "nat \<Rightarrow> bool \<Rightarrow> nat list \<Rightarrow> world \<Rightarrow> world" where
  "timer_fires i granted dataArray w =
     (if i < length (timers w)
      then run_callback (snd (timers w ! i)) granted dataArray
             (w\<lparr>timers := take i (timers w) @ drop (Suc i) (timers w)\<rparr>)
      else w)"

definition recorder_stopped :: "world \<Rightarrow> world" where
  "recorder_stopped w =
     (case mediaRecorderRef w of
        None \<Rightarrow> w
      | Some m \<Rightarrow>
          if rec_state m = Stopping
          then recorder_onstop (w\<lparr>mediaRecorderRef := Some (m\<lparr>rec_state := Inactive\<rparr>)\<rparr>)
          else w)"

definition data_available :: "blob \<Rightarrow> world \<Rightarrow> world" where
  "data_available d w =
     (case mediaRecorderRef w of
        None \<Rightarrow> w
      | Some m \<Rightarrow> if rec_state m = Inactive then w else ondataavailable d w)"

definition step ::
  "(string \<Rightarrow> json option) \<Rightarrow> (string \<Rightarrow> blob option) \<Rightarrow> event \<Rightarrow> world \<Rightarrow> world" where
  "step parse atob e w =
     (case e of
        ToggleChat \<Rightarrow> toggleChat (current_render w) w
      | CloseChat \<Rightarrow> (if s_isOpen w then w\<lparr>s_isOpen := False, canvasRef := False\<rparr> else w)
      | ClickHandsFree \<Rightarrow> (if s_isOpen w then w\<lparr>s_isHandsFree := \<not> s_isHandsFree w\<rparr> else w)
      | TypeInput s \<Rightarrow>
          (if s_isOpen w \<and> \<not> (s_isRecording w \<and> \<not> s_isHandsFree w) then w\<lparr>s_inputText := s\<rparr>
           else w)
      | PressSend \<Rightarrow> (if s_isOpen w then handleSendMessage (current_render w) w else w)
      | ClickMic granted d \<Rightarrow>
          (if s_isOpen w then toggleRecording (current_render w) granted d w else w)
      | SocketOpens \<Rightarrow> socket_opens w
      | SocketCloses \<Rightarrow> socket_closes w
      | SocketMessage m \<Rightarrow>
          (if websocketRef w = Some OPEN
           then (case onmessage parse atob m w of Inl e \<Rightarrow> w | Inr w1 \<Rightarrow> w1)
           else w)
      | AnimationFrame d \<Rightarrow> animation_frame d w
      | TimerFires i granted d \<Rightarrow> timer_fires i granted d w
      | AudioEnds url \<Rightarrow> audio_ends url w
      | PlayRejects url \<Rightarrow> play_rejects url w
      | DataAvailable d \<Rightarrow> data_available d w
      | RecorderStopped \<Rightarrow> recorder_stopped w
      | TimePasses ms \<Rightarrow> w\<lparr>clock := clock w + int ms\<rparr>)"

definition run_events ::
  "(string \<Rightarrow> json option) \<Rightarrow> (string \<Rightarrow> blob option) \<Rightarrow> event list \<Rightarrow> world \<Rightarrow> world" where
  "run_events parse atob evs w = foldl (\<lambda>w' e. step parse atob e w') w evs"

text \<open>The widget as first rendered: every \<^verbatim>\<open>useState\<close> and \<^verbatim>\<open>useRef\<close> at its initial value.\<close>

definition init :: world where
  "init =
     \<lparr>s_isOpen = False, s_isRecording = False, s_isConnected = False, s_isHandsFree = False,
      s_inputText = [], messages = [], websocketRef = None, mediaRecorderRef = None,
      canvasRef = False, analyserRef = False, animationFrameRef = None, silenceStartRef = None,
      audioQueueRef = [], isPlayingRef = False, currentAudioRef = None, clock = 1,
      sent = [], sockets = 0, liveStreams = [], liveURLs = [], sounding = [], started = [],
      frames = [], timers = [], fresh = 1\<rparr>"

text \<open>The playback queue on its own: clips arrive, the playing one ends or fails.\<close>

datatype pq_event = Enqueue blob | Ended nat | Rejected nat

fun pq_step :: "world \<Rightarrow> pq_event \<Rightarrow> world" where
  "pq_step w (Enqueue b) = playAudioResponse b w"
| "pq_step w (Ended url) = audio_ends url w"
| "pq_step w (Rejected url) = play_rejects url w"

fun enqueued :: "pq_event list \<Rightarrow> blob list" where
  "enqueued [] = []"
| "enqueued (Enqueue b # evs) = b # enqueued evs"
| "enqueued (Ended url # evs) = enqueued evs"
| "enqueued (Rejected url # evs) = enqueued evs"

text \<open>
  The busy flag and the elements that sound agree: while the flag is set exactly one
  element sounds; while it is clear none does and nothing is waiting.
\<close>

definition pq_inv :: "world \<Rightarrow> bool" where
  "pq_inv w =
     (if isPlayingRef w then length (sounding w) = 1
      else sounding w = [] \<and> audioQueueRef w = [])"

text \<open>
  What the pending closures captured: every animation frame request and every restart
  timer holds a render in which \<^verbatim>\<open>isRecording\<close> is false.
\<close>

definition closure_sees_idle :: "callback \<Rightarrow> bool" where
  "closure_sees_idle cb = (case cb of RetrySend r \<Rightarrow> True | Restart r \<Rightarrow> \<not> isRecording r)"

definition loops_see_idle :: "world \<Rightarrow> bool" where
  "loops_see_idle w =
     (list_all (\<lambda>p. \<not> isRecording (snd p)) (frames w)
      \<and> list_all (\<lambda>p. closure_sees_idle (snd p)) (timers w))"

section \<open>Transcript merging\<close>

text \<open>
  Claim C7. The transcript is append-only, except that a message whose sender is the
  sender of the current last entry, and is not the system, replaces that last entry by
  one whose text is the old text, one space and the new text (first conjunct). No
  append touches an entry other than the last one (second conjunct). A system message is
  always appended as an entry of its own and the message after it, whoever sends it, is
  appended too, so a system message between two messages of one sender keeps them
  apart (third conjunct).
\<close>

theorem addMessage_merges_or_appends:
  "messages (addMessage who txt w) =
     (if messages w \<noteq> [] \<and> msg_sender (last (messages w)) = who \<and> who \<noteq> System
      then butlast (messages w) @
           [(last (messages w))\<lparr>msg_text :=
              JString (to_str (msg_text (last (messages w))) @ '' '' @ to_str txt)\<rparr>]
      else messages w @ [\<lparr>msg_sender = who, msg_text = txt, msg_time = clock w\<rparr>])
   \<and> take (length (messages w) - 1) (messages (addMessage who txt w)) = butlast (messages w)
   \<and> messages (addMessage who txt (addMessage System note w)) =
       messages w @ [\<lparr>msg_sender = System, msg_text = note, msg_time = clock w\<rparr>,
                     \<lparr>msg_sender = who, msg_text = txt, msg_time = clock w\<rparr>]"
proof (cases "messages w \<noteq> [] \<and> msg_sender (last (messages w)) = who \<and> who \<noteq> System")
  case True
  then have "messages w \<noteq> []" by simp
  then obtain ys y where ms: "messages w = ys @ [y]"
    by (metis append_butlast_last_id)
  with True show ?thesis
    by (auto simp add: addMessage_def merge_or_append_def)
next
  case False
  then show ?thesis
    by (auto simp add: addMessage_def merge_or_append_def butlast_conv_take)
qed

section \<open>Text send\<close>

text \<open>
  Claim C10. When the input is empty or holds white space only, the text send changes
  nothing at all: no frame is sent, no socket is created and the socket reference is the
  same, no retry is scheduled, and the transcript and the input field are as before.
\<close>

theorem blank_send_is_noop:
  "\<forall>c \<in> set (inputText r). is_ws c \<Longrightarrow>
     handleSendMessage r w = w
     \<and> sent (handleSendMessage r w) = sent w
     \<and> sockets (handleSendMessage r w) = sockets w
     \<and> websocketRef (handleSendMessage r w) = websocketRef w
     \<and> timers (handleSendMessage r w) = timers w
     \<and> messages (handleSendMessage r w) = messages w
     \<and> s_inputText (handleSendMessage r w) = s_inputText w"
proof -
  assume a: "\<forall>c \<in> set (inputText r). is_ws c"
  then have "trim (inputText r) = []"
    by (auto simp add: trim_def dest: set_dropWhileD)
  then show ?thesis by (simp add: handleSendMessage_def)
qed

theorem blank_send_is_noop_witness:
  "list_all is_ws ''  '' \<and>
   handleSendMessage
     \<lparr>isOpen = True, isRecording = False, isConnected = False, isHandsFree = False,
      inputText = ''  ''\<rparr> init = init"
  using blank_send_is_noop
    [of "\<lparr>isOpen = True, isRecording = False, isConnected = False, isHandsFree = False,
          inputText = ''  ''\<rparr>" init]
  by (simp add: is_ws_def list_all_iff)

section \<open>Playback queue: order and exclusion\<close>

lemma processQueue_fifo:
  "started (processQueue w) @ audioQueueRef (processQueue w) = started w @ audioQueueRef w"
  by (simp add: processQueue_def)

lemma pq_step_fifo:
  "started (pq_step w e) @ audioQueueRef (pq_step w e) = started w @ audioQueueRef w @ enqueued [e]"
  by (cases e)
     (simp_all add: playAudioResponse_def audio_ends_def play_rejects_def onended_def
        play_catch_def processQueue_fifo)

lemma pq_step_inv: "pq_inv w \<Longrightarrow> pq_inv (pq_step w e)"
proof (cases e)
  case (Enqueue b)
  assume "pq_inv w"
  then show ?thesis using Enqueue
    by (auto simp add: pq_inv_def playAudioResponse_def processQueue_def split: if_splits)
next
  case (Ended url)
  assume "pq_inv w"
  then show ?thesis using Ended
    by (auto simp add: pq_inv_def audio_ends_def onended_def processQueue_def length_Suc_conv
        split: if_splits)
next
  case (Rejected url)
  assume "pq_inv w"
  then show ?thesis using Rejected
    by (auto simp add: pq_inv_def play_rejects_def play_catch_def processQueue_def length_Suc_conv
        split: if_splits)
qed

lemma pq_run_inv: "pq_inv w \<Longrightarrow> pq_inv (foldl pq_step w evs)"
  by (induction evs arbitrary: w) (simp_all add: pq_step_inv)

lemma enqueued_append: "enqueued (xs @ ys) = enqueued xs @ enqueued ys"
  by (induction xs rule: enqueued.induct) simp_all

lemma pq_run_fifo:
  "started (foldl pq_step w evs) @ audioQueueRef (foldl pq_step w evs)
     = started w @ audioQueueRef w @ enqueued evs"
proof (induction evs arbitrary: w)
  case Nil
  show ?case by simp
next
  case (Cons e evs)
  have "started (foldl pq_step (pq_step w e) evs) @ audioQueueRef (foldl pq_step (pq_step w e) evs)
          = (started (pq_step w e) @ audioQueueRef (pq_step w e)) @ enqueued evs"
    using Cons.IH [of "pq_step w e"] by simp
  also have "\<dots> = started w @ audioQueueRef w @ enqueued (e # evs)"
    using pq_step_fifo [of w e] enqueued_append [of "[e]" evs] by simp
  finally show ?case by simp
qed

lemma pq_inv_sounding: "pq_inv w \<Longrightarrow> length (sounding w) \<le> 1"
  by (simp add: pq_inv_def split: if_splits)

lemma pq_enqueue_while_sounding:
  "pq_inv w \<Longrightarrow> sounding w \<noteq> [] \<Longrightarrow>
     sounding (playAudioResponse b w) = sounding w \<and> started (playAudioResponse b w) = started w
     \<and> audioQueueRef (playAudioResponse b w) = audioQueueRef w @ [b]"
  by (auto simp add: pq_inv_def playAudioResponse_def processQueue_def split: if_splits)

lemma pq_start_after_callback:
  "pq_inv w \<Longrightarrow> started (pq_step w e) \<noteq> started w \<Longrightarrow>
     sounding w = [] \<or> (\<exists>a. (e = Ended a \<or> e = Rejected a) \<and> sounding w = [a])"
  by (cases e)
     (auto simp add: pq_inv_def playAudioResponse_def audio_ends_def play_rejects_def onended_def
        play_catch_def processQueue_def length_Suc_conv split: if_splits)

text \<open>
  Claim C3. Start from a queue whose busy flag agrees with what sounds (the initial
  widget is such a state) and let clips be enqueued and the sounding clip end or fail,
  in any order and number. Then, in every state reached: at most one clip sounds; the
  clips whose playback has begun, followed by the clips still waiting, are the clips
  that were waiting at the start followed by the enqueued ones in the order of their
  enqueueing, so playback begins in FIFO order, without a skip or a repeat; a step
  begins a playback only when nothing sounds, or when it is the completion or the error
  callback of the one clip that sounds; and an enqueue while a clip sounds starts
  nothing.
\<close>

theorem playback_fifo_no_overlap:
  "pq_inv w \<Longrightarrow>
     length (sounding (foldl pq_step w evs)) \<le> 1
     \<and> started (foldl pq_step w evs) @ audioQueueRef (foldl pq_step w evs)
         = started w @ audioQueueRef w @ enqueued evs
     \<and> (started (pq_step (foldl pq_step w evs) e) \<noteq> started (foldl pq_step w evs) \<longrightarrow>
          sounding (foldl pq_step w evs) = []
          \<or> (\<exists>a. (e = Ended a \<or> e = Rejected a) \<and> sounding (foldl pq_step w evs) = [a]))
     \<and> (sounding (foldl pq_step w evs) \<noteq> [] \<longrightarrow>
          sounding (playAudioResponse b (foldl pq_step w evs)) = sounding (foldl pq_step w evs)
          \<and> started (playAudioResponse b (foldl pq_step w evs)) = started (foldl pq_step w evs))"
  using pq_inv_sounding [OF pq_run_inv, of w evs] pq_run_fifo [of w evs]
    pq_start_after_callback [OF pq_run_inv, of w evs e]
    pq_enqueue_while_sounding [OF pq_run_inv, of w evs b]
  by blast

theorem playback_fifo_no_overlap_witness:
  "pq_inv init
   \<and> sounding (foldl pq_step init [Enqueue [7], Enqueue [8], Enqueue [9], Ended 1]) = [2]
   \<and> started (foldl pq_step init [Enqueue [7], Enqueue [8], Enqueue [9], Ended 1]) = [[7], [8]]
   \<and> audioQueueRef (foldl pq_step init [Enqueue [7], Enqueue [8], Enqueue [9], Ended 1]) = [[9]]
   \<and> started (pq_step (foldl pq_step init [Enqueue [7], Enqueue [8], Enqueue [9], Ended 1]) (Ended 2))
        = [[7], [8], [9]]
   \<and> started (playAudioResponse [5] (foldl pq_step init [Enqueue [7], Enqueue [8], Enqueue [9], Ended 1]))
        = [[7], [8]]"
  using playback_fifo_no_overlap
    [of init "[Enqueue [7], Enqueue [8], Enqueue [9], Ended 1]" "Ended 2" "[5]"]
  by (simp add: pq_inv_def init_def playAudioResponse_def audio_ends_def onended_def
      processQueue_def)

section \<open>Capture: stop and flush\<close>

text \<open>
  Claim C8. Take a recorder that is recording, stopped through a closure that sees
  \<^verbatim>\<open>isRecording\<close> as true; the browser then delivers the last data \<open>d\<close> and the
  \<^verbatim>\<open>stop\<close> event. The buffered chunks leave as one binary frame, their concatenation,
  if and only if the buffer is not empty and the socket is open; otherwise nothing is
  sent. No timer is set, and a second \<^verbatim>\<open>stop\<close> event finds the recorder inactive and
  does nothing, so audio that was not sent is never sent later. Stopping through a
  closure that sees \<^verbatim>\<open>isRecording\<close> as false, or with no recorder, changes nothing.
\<close>

theorem stop_flushes_iff_buffered_and_open:
  "mediaRecorderRef w = Some m \<Longrightarrow> rec_state m = Recording \<Longrightarrow> isRecording r \<Longrightarrow>
     sent (recorder_stopped (data_available d (stopRecording r w))) =
       (if websocketRef w = Some OPEN \<and> chunks m @ (if d = [] then [] else [d]) \<noteq> []
        then sent w @ [BinaryFrame (concat (chunks m @ (if d = [] then [] else [d])))]
        else sent w)
     \<and> timers (recorder_stopped (data_available d (stopRecording r w))) = timers w
     \<and> recorder_stopped (recorder_stopped (data_available d (stopRecording r w)))
         = recorder_stopped (data_available d (stopRecording r w))
     \<and> (\<forall>r' w'. \<not> isRecording r' \<or> mediaRecorderRef w' = None \<longrightarrow> stopRecording r' w' = w')"
  apply (intro conjI)
     apply (auto simp add: stopRecording_def data_available_def ondataavailable_def
      recorder_stopped_def recorder_onstop_def cancelAnimationFrame_def Let_def
      split: option.splits)
  done

theorem stop_flushes_iff_buffered_and_open_witness:
  "mediaRecorderRef (init\<lparr>websocketRef := Some OPEN,
       mediaRecorderRef := Some \<lparr>rec_stream = 1, chunks = [[1, 2]], rec_state = Recording\<rparr>\<rparr>)
     = Some \<lparr>rec_stream = 1, chunks = [[1, 2]], rec_state = Recording\<rparr>
   \<and> rec_state \<lparr>rec_stream = 1, chunks = [[1, 2]], rec_state = Recording\<rparr> = Recording
   \<and> isRecording \<lparr>isOpen = True, isRecording = True, isConnected = True, isHandsFree = False,
                   inputText = []\<rparr>
   \<and> sent (recorder_stopped (data_available [3]
        (stopRecording \<lparr>isOpen = True, isRecording = True, isConnected = True, isHandsFree = False,
                        inputText = []\<rparr>
           (init\<lparr>websocketRef := Some OPEN,
              mediaRecorderRef := Some \<lparr>rec_stream = 1, chunks = [[1, 2]], rec_state = Recording\<rparr>\<rparr>))))
     = [BinaryFrame [1, 2, 3]]
   \<and> stopRecording \<lparr>isOpen = True, isRecording = False, isConnected = True, isHandsFree = False,
                     inputText = []\<rparr> init = init"
  using stop_flushes_iff_buffered_and_open
    [of "init\<lparr>websocketRef := Some OPEN,
           mediaRecorderRef := Some \<lparr>rec_stream = 1, chunks = [[1, 2]], rec_state = Recording\<rparr>\<rparr>"
        "\<lparr>rec_stream = 1, chunks = [[1, 2]], rec_state = Recording\<rparr>"
        "\<lparr>isOpen = True, isRecording = True, isConnected = True, isHandsFree = False,
          inputText = []\<rparr>" "[3]"]
  by (simp add: init_def)

section \<open>Capture: start\<close>

lemma draw_inert:
  "\<not> (isHandsFree r \<and> isRecording r) \<Longrightarrow> draw r d w = (None, requestAnimationFrame r w)"
  by (cases "isHandsFree r"; cases "isRecording r"; simp add: draw_def Let_def)

text \<open>
  Claim C4, as stated, fails: \<^verbatim>\<open>startRecording\<close> has no test of its own. The panel is
  opened and the mic clicked, so a session is active on stream 1; a further call of
  \<^verbatim>\<open>startRecording\<close> acquires stream 3 while stream 1 is live.
\<close>

theorem second_start_acquires_stream:
  "s_isRecording (run_events (\<lambda>s. None) (\<lambda>s. None) [ToggleChat, ClickMic True []] init)
   \<and> liveStreams (run_events (\<lambda>s. None) (\<lambda>s. None) [ToggleChat, ClickMic True []] init) = [1]
   \<and> liveStreams
       (startRecording
          \<lparr>isOpen = True, isRecording = False, isConnected = False, isHandsFree = False,
           inputText = []\<rparr> True []
          (run_events (\<lambda>s. None) (\<lambda>s. None) [ToggleChat, ClickMic True []] init)) = [1, 3]"
  by (simp add: run_events_def step_def init_def toggleChat_def current_render_def
      connectWebSocket_def toggleRecording_def startRecording_def drawVisualizer_def draw_def
      requestAnimationFrame_def addMessage_def merge_or_append_def Let_def)

text \<open>
  Such a call happens in use: when the socket closes during a session, \<^verbatim>\<open>onclose\<close>
  clears \<^verbatim>\<open>isRecording\<close> (line 63) and leaves the recorder running, so the next click
  on the mic starts a second session beside the first.
\<close>

lemma second_stream_after_disconnect:
  "liveStreams (run_events (\<lambda>s. None) (\<lambda>s. None)
      [ToggleChat, ClickMic True [], SocketCloses, ClickMic True []] init) = [1, 3]"
  by (simp add: run_events_def step_def init_def toggleChat_def current_render_def
      connectWebSocket_def toggleRecording_def startRecording_def drawVisualizer_def draw_def
      requestAnimationFrame_def addMessage_def merge_or_append_def socket_closes_def
      ws_onclose_def Let_def)

text \<open>
  Claim C4, amended. The exclusion is the toggle's: in a render that sees
  \<^verbatim>\<open>isRecording\<close> as true the mic control stops the session and acquires no stream;
  in a render that sees it as false the control calls \<^verbatim>\<open>startRecording\<close>, and every
  such call whose device request is granted acquires one new stream and makes a
  new recorder on it the current one, whatever streams are live already.
\<close>

theorem toggle_guards_start:
  "(isRecording r \<longrightarrow>
      toggleRecording r granted d w = stopRecording r w
      \<and> set (liveStreams (toggleRecording r granted d w)) \<subseteq> set (liveStreams w))
   \<and> (\<not> isRecording r \<longrightarrow>
      toggleRecording r True d w = startRecording r True d w
      \<and> liveStreams (startRecording r True d w) = liveStreams w @ [fresh w]
      \<and> mediaRecorderRef (startRecording r True d w)
          = Some \<lparr>rec_stream = fresh w, chunks = [], rec_state = Recording\<rparr>)"
  by (auto simp add: toggleRecording_def stopRecording_def startRecording_def drawVisualizer_def
      draw_inert requestAnimationFrame_def connectWebSocket_def addMessage_def
      cancelAnimationFrame_def Let_def split: option.splits)

theorem toggle_guards_start_witness:
  "isRecording \<lparr>isOpen = True, isRecording = True, isConnected = False, isHandsFree = False,
                 inputText = []\<rparr>
   \<and> liveStreams (toggleRecording
        \<lparr>isOpen = True, isRecording = True, isConnected = False, isHandsFree = False,
         inputText = []\<rparr> True []
        (init\<lparr>liveStreams := [1],
           mediaRecorderRef := Some \<lparr>rec_stream = 1, chunks = [], rec_state = Recording\<rparr>\<rparr>)) = []
   \<and> \<not> isRecording \<lparr>isOpen = True, isRecording = False, isConnected = False, isHandsFree = False,
                 inputText = []\<rparr>
   \<and> liveStreams (startRecording
        \<lparr>isOpen = True, isRecording = False, isConnected = False, isHandsFree = False,
         inputText = []\<rparr> True [] init) = [1]"
  using toggle_guards_start
    [of "\<lparr>isOpen = True, isRecording = True, isConnected = False, isHandsFree = False,
          inputText = []\<rparr>" True "[]"
        "init\<lparr>liveStreams := [1],
           mediaRecorderRef := Some \<lparr>rec_stream = 1, chunks = [], rec_state = Recording\<rparr>\<rparr>"]
    toggle_guards_start
    [of "\<lparr>isOpen = True, isRecording = False, isConnected = False, isHandsFree = False,
          inputText = []\<rparr>" True "[]" init]
  by (simp add: init_def stopRecording_def)

section \<open>Inbound dispatch\<close>

lemma onmessage_total: "\<exists>w'. onmessage parse atob ev w = Inr w'"
  by (simp add: onmessage_def split: inbound.splits sum.splits)

text \<open>
  Claim C5, as stated, fails: a frame that parses, has a \<^verbatim>\<open>text\<close> field and no \<^verbatim>\<open>type\<close>
  gains no message when the text is the empty string, since line 81 tests the text for
  truth.
\<close>

theorem empty_text_gains_nothing:
  \<open>onmessage (\<lambda>s. if s = ''{"text":""}'' then Some (JObject JUndefined (JString []) JUndefined) else None)
      (\<lambda>s. None) (TextData ''{"text":""}'') init = Inr init\<close>
  by (simp add: onmessage_def onmessage_try_def decode_audio_def)

text \<open>
  An \<^verbatim>\<open>audio\<close> field that \<^verbatim>\<open>atob\<close> rejects ends the \<^verbatim>\<open>try\<close> block before the text is
  looked at: the frame is then shown raw, as an agent message, whatever its type.
\<close>

lemma bad_audio_hides_transcript:
  "messages (case onmessage (\<lambda>s. Some (JObject (JString ''!'') (JString ''hi'') (JString ''transcript'')))
      (\<lambda>s. None) (TextData ''p'') init of Inr w \<Rightarrow> w | Inl e \<Rightarrow> init)
    = [\<lparr>msg_sender = Agent, msg_text = JString ''p'', msg_time = 1\<rparr>]"
  by (simp add: onmessage_def onmessage_try_def decode_audio_def addMessage_def
      merge_or_append_def init_def)

text \<open>
  Claim C5, amended. For a textual frame that parses to an object whose audio, if any,
  decodes (\<open>wa\<close> is the world after the clip, if any, was enqueued): with type
  \<^verbatim>\<open>transcript\<close> the transcript takes the text as one user message; with type
  \<^verbatim>\<open>text_response\<close> it takes it as one agent message; with no type and a text that is
  not empty it takes it as one agent message. A frame that does not parse is taken raw
  as one agent message. Each message enters through \<open>addMessage\<close>. The handler
  never throws, whatever the frame.
\<close>

theorem inbound_text_dispatch:
  "(parse payload = Some (JObject audio tx kind) \<and> decode_audio atob audio w = Inr wa \<longrightarrow>
      (kind = JString ''transcript'' \<longrightarrow>
         onmessage parse atob (TextData payload) w = Inr (addMessage User tx wa))
      \<and> (kind = JString ''text_response'' \<longrightarrow>
         onmessage parse atob (TextData payload) w = Inr (addMessage Agent tx wa))
      \<and> (kind = JUndefined \<and> truthy tx \<longrightarrow>
         onmessage parse atob (TextData payload) w = Inr (addMessage Agent tx wa)))
   \<and> (parse payload = None \<longrightarrow>
         onmessage parse atob (TextData payload) w = Inr (addMessage Agent (JString payload) w))
   \<and> (\<exists>w'. onmessage parse atob ev w = Inr w')"
  using onmessage_total [of parse atob ev w]
  by (auto simp add: onmessage_def onmessage_try_def)

theorem inbound_text_dispatch_witness:
  \<open>onmessage
     (\<lambda>s. if s = ''{"type":"transcript","text":"what is my balance"}''
          then Some (JObject JUndefined (JString ''what is my balance'') (JString ''transcript''))
          else if s = ''{"type":"text_response","text":"Your balance is $100"}''
          then Some (JObject JUndefined (JString ''Your balance is $100'') (JString ''text_response''))
          else None)
     (\<lambda>s. None) (TextData ''{"type":"transcript","text":"what is my balance"}'') init
    = Inr (addMessage User (JString ''what is my balance'') init)
   \<and> messages (addMessage User (JString ''what is my balance'') init)
    = [\<lparr>msg_sender = User, msg_text = JString ''what is my balance'', msg_time = 1\<rparr>]\<close>
  using inbound_text_dispatch
    [where parse = \<open>\<lambda>s. if s = ''{"type":"transcript","text":"what is my balance"}''
          then Some (JObject JUndefined (JString ''what is my balance'') (JString ''transcript''))
          else if s = ''{"type":"text_response","text":"Your balance is $100"}''
          then Some (JObject JUndefined (JString ''Your balance is $100'') (JString ''text_response''))
          else None\<close>
       and payload = \<open>''{"type":"transcript","text":"what is my balance"}''\<close>
       and audio = JUndefined and tx = \<open>JString ''what is my balance''\<close>
       and kind = \<open>JString ''transcript''\<close> and atob = \<open>\<lambda>s. None\<close> and w = init and wa = init
       and ev = \<open>BlobData []\<close>]
  by (simp add: decode_audio_def addMessage_def merge_or_append_def init_def)

section \<open>Text send: retry and echo\<close>

text \<open>
  Claim C6, as stated, fails: there is no local echo at the send request. The panel is
  opened (the socket is still connecting), the user types and sends: the transcript
  stays empty, nothing is sent, one retry is pending.
\<close>

theorem no_echo_before_delivery:
  "messages (run_events (\<lambda>s. None) (\<lambda>s. None) [ToggleChat, TypeInput ''hi'', PressSend] init) = []
   \<and> sent (run_events (\<lambda>s. None) (\<lambda>s. None) [ToggleChat, TypeInput ''hi'', PressSend] init) = []
   \<and> timers (run_events (\<lambda>s. None) (\<lambda>s. None) [ToggleChat, TypeInput ''hi'', PressSend] init)
       = [(500, RetrySend \<lparr>isOpen = True, isRecording = False, isConnected = False,
                            isHandsFree = False, inputText = ''hi''\<rparr>)]"
  by (simp add: run_events_def step_def init_def toggleChat_def current_render_def
      connectWebSocket_def handleSendMessage_def trim_def is_ws_def setTimeout_def Let_def)

text \<open>
  Nor is the most recent send the only one retried: each request holds a timer of its
  own, whose closure keeps the text of its render, and each is delivered.
\<close>

lemma every_pending_send_is_retried:
  "sent (run_events (\<lambda>s. None) (\<lambda>s. None)
      [ToggleChat, TypeInput ''a'', PressSend, TypeInput ''b'', PressSend, SocketOpens,
       TimerFires 0 False [], TimerFires 0 False []] init)
     = [TextFrame ''a'', TextFrame ''b'']"
  by (simp add: run_events_def step_def init_def toggleChat_def current_render_def
      connectWebSocket_def handleSendMessage_def trim_def is_ws_def setTimeout_def Let_def
      socket_opens_def ws_onopen_def timer_fires_def run_callback_def addMessage_def
      merge_or_append_def)

text \<open>
  Claim C6, amended. For a text that is not blank: the retry timer runs the same send
  again, with the same text. A send that finds the socket not open changes neither the
  transcript, nor what was sent, nor the input field, and sets one timer of 500ms for
  its own retry; this repeats for as long as the socket is not open. A send that finds
  the socket open sends the frame once, passes the text to the transcript as a user
  message at that moment, clears the input field and sets no timer.
\<close>

theorem send_retries_until_open:
  "trim (inputText r) \<noteq> [] \<Longrightarrow>
     run_callback (RetrySend r) granted d w = handleSendMessage r w
     \<and> (websocketRef w \<noteq> Some OPEN \<longrightarrow>
          messages (handleSendMessage r w) = messages w
          \<and> sent (handleSendMessage r w) = sent w
          \<and> s_inputText (handleSendMessage r w) = s_inputText w
          \<and> timers (handleSendMessage r w) = timers w @ [(500, RetrySend r)])
     \<and> (websocketRef w = Some OPEN \<longrightarrow>
          sent (handleSendMessage r w) = sent w @ [TextFrame (inputText r)]
          \<and> messages (handleSendMessage r w)
              = messages (addMessage User (JString (inputText r)) w)
          \<and> s_inputText (handleSendMessage r w) = []
          \<and> timers (handleSendMessage r w) = timers w)"
  by (auto simp add: run_callback_def handleSendMessage_def connectWebSocket_def setTimeout_def
      addMessage_def Let_def)

theorem send_retries_until_open_witness:
  "trim ''hi'' \<noteq> []
   \<and> sent (run_events (\<lambda>s. None) (\<lambda>s. None)
        [ToggleChat, TypeInput ''hi'', PressSend, TimerFires 0 False [], SocketOpens,
         TimerFires 0 False []] init) = [TextFrame ''hi'']
   \<and> messages (run_events (\<lambda>s. None) (\<lambda>s. None)
        [ToggleChat, TypeInput ''hi'', PressSend, TimerFires 0 False [], SocketOpens,
         TimerFires 0 False []] init)
      = [\<lparr>msg_sender = System, msg_text = JString ''Connected to Banking Assistant'', msg_time = 1\<rparr>,
         \<lparr>msg_sender = User, msg_text = JString ''hi'', msg_time = 1\<rparr>]
   \<and> timers (run_events (\<lambda>s. None) (\<lambda>s. None)
        [ToggleChat, TypeInput ''hi'', PressSend, TimerFires 0 False [], SocketOpens,
         TimerFires 0 False []] init) = []"
  using send_retries_until_open
    [of "\<lparr>isOpen = True, isRecording = False, isConnected = False, isHandsFree = False,
          inputText = ''hi''\<rparr>" False "[]"
        "run_events (\<lambda>s. None) (\<lambda>s. None)
          [ToggleChat, TypeInput ''hi'', PressSend, TimerFires 0 False [], SocketOpens] init"]
  by (simp add: run_events_def step_def init_def toggleChat_def current_render_def
      connectWebSocket_def handleSendMessage_def trim_def is_ws_def setTimeout_def Let_def
      socket_opens_def ws_onopen_def timer_fires_def run_callback_def addMessage_def
      merge_or_append_def)

section \<open>Playback queue: object URLs\<close>

text \<open>
  Claim C9 at its failing inputs. A clip is enqueued and begins playback under URL 1.
  When its \<^verbatim>\<open>play()\<close> is rejected, the \<^verbatim>\<open>catch\<close> block leaves URL 1 live although
  nothing sounds and the queue is idle; the \<^verbatim>\<open>onended\<close> path on the same clip revokes
  it. \<^verbatim>\<open>stopAudioPlayback\<close> on the playing clip silences it and drops the reference, and
  URL 1 stays live too.
\<close>

theorem failed_clip_keeps_its_url:
  "started (foldl pq_step init [Enqueue [7], Rejected 1]) = [[7]]
   \<and> sounding (foldl pq_step init [Enqueue [7], Rejected 1]) = []
   \<and> isPlayingRef (foldl pq_step init [Enqueue [7], Rejected 1]) = False
   \<and> liveURLs (foldl pq_step init [Enqueue [7], Rejected 1]) = [1]
   \<and> liveURLs (foldl pq_step init [Enqueue [7], Ended 1]) = []
   \<and> sounding (stopAudioPlayback (playAudioResponse [7] init)) = []
   \<and> currentAudioRef (stopAudioPlayback (playAudioResponse [7] init)) = None
   \<and> liveURLs (stopAudioPlayback (playAudioResponse [7] init)) = [1]"
  by (simp add: init_def playAudioResponse_def processQueue_def play_rejects_def play_catch_def
      audio_ends_def onended_def stopAudioPlayback_def)

text \<open>Of the queue's operations only \<^verbatim>\<open>onended\<close> revokes a URL.\<close>

lemma only_onended_revokes:
  "liveURLs (stopAudioPlayback w) = liveURLs w
   \<and> set (liveURLs w) \<subseteq> set (liveURLs (play_catch w))
   \<and> set (liveURLs w) \<subseteq> set (liveURLs (playAudioResponse b w))"
  by (auto simp add: stopAudioPlayback_def play_catch_def playAudioResponse_def processQueue_def
      split: option.splits)

section \<open>Turn controller: what the loop's closure sees\<close>

text \<open>
  \<^verbatim>\<open>toggleRecording\<close> calls \<^verbatim>\<open>startRecording\<close> only in a render whose \<^verbatim>\<open>isRecording\<close> is
  false (lines 164-168), \<^verbatim>\<open>startRecording\<close> creates the loop through the
  \<^verbatim>\<open>drawVisualizer\<close> of the same render (line 115), and the only other caller of
  \<^verbatim>\<open>startRecording\<close> is the restart timer set inside such a loop (line 318). So every
  loop and every restart timer that the widget can ever hold reads \<^verbatim>\<open>isRecording\<close> as
  false; \<^verbatim>\<open>setIsRecording(true)\<close> in line 136 reaches the next render, not the
  closure that is running.
\<close>


lemma frames_timers_addMessage [simp]:
  "frames (addMessage a b w) = frames w" "timers (addMessage a b w) = timers w"
  by (simp_all add: addMessage_def)

lemma frames_timers_connect [simp]:
  "frames (connectWebSocket w) = frames w" "timers (connectWebSocket w) = timers w"
  by (simp_all add: connectWebSocket_def)

lemma frames_timers_processQueue [simp]:
  "frames (processQueue w) = frames w" "timers (processQueue w) = timers w"
  by (simp_all add: processQueue_def)

lemma frames_timers_playAudioResponse [simp]:
  "frames (playAudioResponse b w) = frames w" "timers (playAudioResponse b w) = timers w"
  by (simp_all add: playAudioResponse_def)

lemma loops_see_idle_stopRecording:
  "loops_see_idle w \<Longrightarrow> loops_see_idle (stopRecording r w)"
  by (auto simp add: loops_see_idle_def stopRecording_def cancelAnimationFrame_def Let_def
      list_all_iff split: option.splits)

lemma loops_see_idle_startRecording:
  "loops_see_idle w \<Longrightarrow> \<not> isRecording r \<Longrightarrow> loops_see_idle (startRecording r granted d w)"
  by (auto simp add: loops_see_idle_def startRecording_def drawVisualizer_def draw_inert
      requestAnimationFrame_def Let_def)

lemma loops_see_idle_handleSendMessage:
  "loops_see_idle w \<Longrightarrow> loops_see_idle (handleSendMessage r w)"
  by (auto simp add: loops_see_idle_def handleSendMessage_def setTimeout_def Let_def
      closure_sees_idle_def)

lemma loops_see_idle_onmessage:
  "loops_see_idle w \<Longrightarrow> onmessage parse atob m w = Inr w1 \<Longrightarrow> loops_see_idle w1"
  by (auto simp add: loops_see_idle_def onmessage_def onmessage_try_def decode_audio_def
      split: inbound.splits sum.splits option.splits json.splits if_splits)

lemma loops_see_idle_animation_frame:
  "loops_see_idle w \<Longrightarrow> loops_see_idle (animation_frame d w)"
  by (auto simp add: loops_see_idle_def animation_frame_def draw_inert requestAnimationFrame_def
      split: list.splits)

lemma loops_see_idle_timer_fires:
  assumes "loops_see_idle w"
  shows "loops_see_idle (timer_fires i granted d w)"
proof (cases "i < length (timers w)")
  case False
  with assms show ?thesis by (simp add: timer_fires_def)
next
  case True
  let ?w = "w\<lparr>timers := take i (timers w) @ drop (Suc i) (timers w)\<rparr>"
  have rest: "loops_see_idle ?w"
    using assms by (auto simp add: loops_see_idle_def list_all_iff dest: in_set_takeD in_set_dropD)
  have cb: "closure_sees_idle (snd (timers w ! i))"
    using assms True by (simp add: loops_see_idle_def list_all_length)
  show ?thesis
  proof (cases "snd (timers w ! i)")
    case (RetrySend r)
    with True rest show ?thesis
      by (simp add: timer_fires_def run_callback_def loops_see_idle_handleSendMessage)
  next
    case (Restart r)
    with cb have "\<not> isRecording r" by (simp add: closure_sees_idle_def)
    with True rest Restart show ?thesis
      by (simp add: timer_fires_def run_callback_def loops_see_idle_startRecording)
  qed
qed

lemma loops_see_idle_step:
  assumes "loops_see_idle w"
  shows "loops_see_idle (step parse atob e w)"
proof (cases e)
  case (ClickMic granted d)
  show ?thesis
  proof (cases "s_isRecording w")
    case True
    with assms ClickMic show ?thesis
      by (simp add: step_def toggleRecording_def current_render_def loops_see_idle_stopRecording)
  next
    case False
    with assms ClickMic show ?thesis
      by (simp add: step_def toggleRecording_def current_render_def loops_see_idle_startRecording)
  qed
next
  case (SocketMessage m)
  with assms show ?thesis
    by (auto simp add: step_def split: sum.splits dest: loops_see_idle_onmessage)
next
  case (AnimationFrame d)
  with assms show ?thesis by (simp add: step_def loops_see_idle_animation_frame)
next
  case (TimerFires i granted d)
  with assms show ?thesis by (simp add: step_def loops_see_idle_timer_fires)
next
  case PressSend
  with assms show ?thesis by (simp add: step_def loops_see_idle_handleSendMessage)
qed (use assms in \<open>auto simp add: step_def loops_see_idle_def toggleChat_def Let_def
      socket_opens_def socket_closes_def ws_onopen_def ws_onclose_def audio_ends_def
      play_rejects_def onended_def play_catch_def data_available_def ondataavailable_def
      recorder_stopped_def recorder_onstop_def split: option.splits\<close>)

lemma loops_see_idle_run:
  "loops_see_idle w \<Longrightarrow> loops_see_idle (run_events parse atob evs w)"
  unfolding run_events_def
  by (induction evs arbitrary: w) (simp_all add: loops_see_idle_step)

lemma loops_see_idle_init: "loops_see_idle init"
  by (simp add: loops_see_idle_def init_def)

text \<open>
  A loop whose closure reads \<^verbatim>\<open>isRecording\<close> as false fails the test of line 297 at
  every frame: it reschedules itself and takes no part in turn taking. This holds for
  every frame of every run of the widget from its first render.
\<close>

lemma frame_takes_no_turn:
  "loops_see_idle w \<Longrightarrow>
     sent (animation_frame d w) = sent w
     \<and> sounding (animation_frame d w) = sounding w
     \<and> audioQueueRef (animation_frame d w) = audioQueueRef w
     \<and> isPlayingRef (animation_frame d w) = isPlayingRef w
     \<and> mediaRecorderRef (animation_frame d w) = mediaRecorderRef w
     \<and> liveStreams (animation_frame d w) = liveStreams w
     \<and> silenceStartRef (animation_frame d w) = silenceStartRef w
     \<and> timers (animation_frame d w) = timers w"
  by (auto simp add: loops_see_idle_def animation_frame_def draw_inert requestAnimationFrame_def
      split: list.splits)

lemma vad_never_runs:
  "sent (animation_frame d (run_events parse atob evs init)) = sent (run_events parse atob evs init)
   \<and> sounding (animation_frame d (run_events parse atob evs init))
       = sounding (run_events parse atob evs init)
   \<and> audioQueueRef (animation_frame d (run_events parse atob evs init))
       = audioQueueRef (run_events parse atob evs init)
   \<and> mediaRecorderRef (animation_frame d (run_events parse atob evs init))
       = mediaRecorderRef (run_events parse atob evs init)
   \<and> silenceStartRef (animation_frame d (run_events parse atob evs init))
       = silenceStartRef (run_events parse atob evs init)
   \<and> timers (animation_frame d (run_events parse atob evs init))
       = timers (run_events parse atob evs init)"
  using frame_takes_no_turn [OF loops_see_idle_run [OF loops_see_idle_init], of d parse atob evs]
  by simp

text \<open>
  For comparison, the branches of lines 298-319 as they would run in a closure that read
  both flags as true: one stop of the playback and one interrupt at the first loud sample
  and none at the next; one stop of the capture, the timer cleared, the loop cancelled
  and one restart timer of 100ms at the first quiet sample more than 600ms after the
  silence began.
\<close>

lemma barge_in_once_when_seen:
  assumes "isHandsFree r" "isRecording r" "average d > 25" "websocketRef w = Some OPEN"
    and "audioQueueRef w \<noteq> [] \<or> isPlayingRef w"
  shows "sent (snd (draw r d w)) = sent w @ [InterruptFrame]"
    and "audioQueueRef (snd (draw r d w)) = []"
    and "\<not> isPlayingRef (snd (draw r d w))"
    and "sent (snd (draw r d (snd (draw r d w)))) = sent w @ [InterruptFrame]"
  using assms
  by (auto simp add: draw_def requestAnimationFrame_def stopAudioPlayback_def ws_send_def Let_def
      split: option.splits)

lemma silence_cycle_when_seen:
  assumes "isHandsFree r" "isRecording r" "\<not> average d > 25"
    and "silenceStartRef w = Some t0" "t0 \<noteq> 0" "clock w - t0 > 600"
    and "mediaRecorderRef w = Some m"
  shows "timers (snd (draw r d w)) = timers w @ [(100, Restart r)]"
    and "silenceStartRef (snd (draw r d w)) = None"
    and "frames (snd (draw r d w)) = filter (\<lambda>p. fst p \<noteq> fresh w) (frames w)"
    and "\<not> s_isRecording (snd (draw r d w))"
  using assms
  by (auto simp add: draw_def requestAnimationFrame_def stopRecording_def setTimeout_def
      cancelAnimationFrame_def Let_def split: option.splits)

text \<open>
  Claim C1 at its failing input. The panel is opened, the socket opens, hands-free mode
  is switched on, the mic is clicked and granted: the widget is in hands-free mode with a
  capture session active. Two clips arrive; clip 7 sounds under URL 3, clip 8 waits. Two
  frames whose mean energy is 200, above the threshold of 25, follow. Clip 7 still
  sounds, clip 8 still waits and nothing was sent: no \<^verbatim>\<open>stopAudioPlayback\<close>, no
  interrupt message.
\<close>

theorem barge_in_never_fires:
  "average (replicate 128 200) > 25
   \<and> s_isHandsFree (run_events (\<lambda>s. None) (\<lambda>s. None)
        [ToggleChat, SocketOpens, ClickHandsFree, ClickMic True (replicate 128 0),
         SocketMessage (BlobData [7]), SocketMessage (BlobData [8])] init)
   \<and> s_isRecording (run_events (\<lambda>s. None) (\<lambda>s. None)
        [ToggleChat, SocketOpens, ClickHandsFree, ClickMic True (replicate 128 0),
         SocketMessage (BlobData [7]), SocketMessage (BlobData [8])] init)
   \<and> sounding (run_events (\<lambda>s. None) (\<lambda>s. None)
        [ToggleChat, SocketOpens, ClickHandsFree, ClickMic True (replicate 128 0),
         SocketMessage (BlobData [7]), SocketMessage (BlobData [8])] init) = [3]
   \<and> sounding (run_events (\<lambda>s. None) (\<lambda>s. None)
        [ToggleChat, SocketOpens, ClickHandsFree, ClickMic True (replicate 128 0),
         SocketMessage (BlobData [7]), SocketMessage (BlobData [8]),
         AnimationFrame (replicate 128 200), AnimationFrame (replicate 128 200)] init) = [3]
   \<and> audioQueueRef (run_events (\<lambda>s. None) (\<lambda>s. None)
        [ToggleChat, SocketOpens, ClickHandsFree, ClickMic True (replicate 128 0),
         SocketMessage (BlobData [7]), SocketMessage (BlobData [8]),
         AnimationFrame (replicate 128 200), AnimationFrame (replicate 128 200)] init) = [[8]]
   \<and> sent (run_events (\<lambda>s. None) (\<lambda>s. None)
        [ToggleChat, SocketOpens, ClickHandsFree, ClickMic True (replicate 128 0),
         SocketMessage (BlobData [7]), SocketMessage (BlobData [8]),
         AnimationFrame (replicate 128 200), AnimationFrame (replicate 128 200)] init) = []"
  by (simp add: average_def sum_list_replicate run_events_def step_def init_def toggleChat_def current_render_def
      connectWebSocket_def socket_opens_def ws_onopen_def toggleRecording_def startRecording_def
      drawVisualizer_def draw_def requestAnimationFrame_def addMessage_def merge_or_append_def
      onmessage_def playAudioResponse_def processQueue_def animation_frame_def Let_def)

text \<open>
  Claim C2 at its failing input. In hands-free mode with a capture session active, a loud
  frame is followed by buffered audio and by quiet frames 700ms and 1400ms after the first
  quiet one. The silence timer was never set, the recorder still records with its buffer
  unsent, and no restart timer is pending: no end-of-utterance cycle took place.
\<close>

theorem silence_never_ends_the_turn:
  "\<not> average (replicate 128 0) > 25
   \<and> s_isHandsFree (run_events (\<lambda>s. None) (\<lambda>s. None)
        [ToggleChat, SocketOpens, ClickHandsFree, ClickMic True (replicate 128 200),
         AnimationFrame (replicate 128 200), DataAvailable [5],
         AnimationFrame (replicate 128 0), TimePasses 700, AnimationFrame (replicate 128 0),
         TimePasses 700, AnimationFrame (replicate 128 0)] init)
   \<and> s_isRecording (run_events (\<lambda>s. None) (\<lambda>s. None)
        [ToggleChat, SocketOpens, ClickHandsFree, ClickMic True (replicate 128 200),
         AnimationFrame (replicate 128 200), DataAvailable [5],
         AnimationFrame (replicate 128 0), TimePasses 700, AnimationFrame (replicate 128 0),
         TimePasses 700, AnimationFrame (replicate 128 0)] init)
   \<and> mediaRecorderRef (run_events (\<lambda>s. None) (\<lambda>s. None)
        [ToggleChat, SocketOpens, ClickHandsFree, ClickMic True (replicate 128 200),
         AnimationFrame (replicate 128 200), DataAvailable [5],
         AnimationFrame (replicate 128 0), TimePasses 700, AnimationFrame (replicate 128 0),
         TimePasses 700, AnimationFrame (replicate 128 0)] init)
       = Some \<lparr>rec_stream = 1, chunks = [[5]], rec_state = Recording\<rparr>
   \<and> silenceStartRef (run_events (\<lambda>s. None) (\<lambda>s. None)
        [ToggleChat, SocketOpens, ClickHandsFree, ClickMic True (replicate 128 200),
         AnimationFrame (replicate 128 200), DataAvailable [5],
         AnimationFrame (replicate 128 0), TimePasses 700, AnimationFrame (replicate 128 0),
         TimePasses 700, AnimationFrame (replicate 128 0)] init) = None
   \<and> sent (run_events (\<lambda>s. None) (\<lambda>s. None)
        [ToggleChat, SocketOpens, ClickHandsFree, ClickMic True (replicate 128 200),
         AnimationFrame (replicate 128 200), DataAvailable [5],
         AnimationFrame (replicate 128 0), TimePasses 700, AnimationFrame (replicate 128 0),
         TimePasses 700, AnimationFrame (replicate 128 0)] init) = []
   \<and> timers (run_events (\<lambda>s. None) (\<lambda>s. None)
        [ToggleChat, SocketOpens, ClickHandsFree, ClickMic True (replicate 128 200),
         AnimationFrame (replicate 128 200), DataAvailable [5],
         AnimationFrame (replicate 128 0), TimePasses 700, AnimationFrame (replicate 128 0),
         TimePasses 700, AnimationFrame (replicate 128 0)] init) = []"
  by (simp add: average_def sum_list_replicate run_events_def step_def init_def toggleChat_def
      current_render_def connectWebSocket_def socket_opens_def ws_onopen_def toggleRecording_def
      startRecording_def drawVisualizer_def draw_def requestAnimationFrame_def addMessage_def
      merge_or_append_def data_available_def ondataavailable_def animation_frame_def Let_def)

end
